theory Spec2Isabelle
  imports Main "HOL-Library.Sublist" "HOL-Library.Word"
begin

unbundle bit_operations_syntax

section \<open>The remediation resolver (whitelist/whitelist.go)\<close>

text \<open>
  The Go interface \<open>Item\<close> has the single method \<open>Matches(x509.Certificate) bool\<close>, so an
  item is its \<open>Matches\<close> predicate. A snapshot is a slice of certificate pointers; a
  pointer is either \<open>nil\<close> (\<open>None\<close>) or refers to a certificate (\<open>Some c\<close>).
\<close>

type_synonym 'c Item = "'c \<Rightarrow> bool"

text \<open>
  The body of the inner loop of \<open>findRemovable\<close>:
  \<^verbatim>\<open>if inc != nil && wh.Matches(*inc) { remove = false }\<close>
  The conjunction is short-circuit: \<open>Matches\<close> is never called on a nil pointer.
\<close>

definition scan_item :: "'c option \<Rightarrow> 'c Item \<Rightarrow> bool \<Rightarrow> bool" where
  "scan_item inc wh remove =
     (case inc of
        None \<Rightarrow> remove
      | Some c \<Rightarrow> if wh c then False else remove)"

text \<open>The inner loop: \<open>remove := true\<close>, then every whitelist item is visited in order.\<close>

definition scan_whitelist :: "'c option \<Rightarrow> 'c Item list \<Rightarrow> bool" where
  "scan_whitelist inc whitelisted = fold (scan_item inc) whitelisted True"

text \<open>
  The local variables of \<open>findRemovable\<close>: the slice it ranges over and the slice it
  builds. \<open>append\<close> on the initially nil slice \<open>removable\<close> allocates fresh storage, so
  the only variable written is \<open>removable\<close>.
\<close>

record 'c frame =
  frame_incoming :: "'c option list"
  frame_removable :: "'c option list"

text \<open>The body of the outer loop: \<open>if remove { removable = append(removable, inc) }\<close>.\<close>

definition visit :: "'c Item list \<Rightarrow> 'c option \<Rightarrow> 'c frame \<Rightarrow> 'c frame" where
  "visit whitelisted inc fr =
     (if scan_whitelist inc whitelisted
      then fr\<lparr>frame_removable := frame_removable fr @ [inc]\<rparr>
      else fr)"

definition findRemovable_run :: "'c option list \<Rightarrow> 'c Item list \<Rightarrow> 'c frame" where
  "findRemovable_run incoming whitelisted =
     fold (visit whitelisted) incoming
       \<lparr>frame_incoming = incoming, frame_removable = []\<rparr>"

definition findRemovable :: "'c option list \<Rightarrow> 'c Item list \<Rightarrow> 'c option list" where
  "findRemovable incoming whitelisted =
     frame_removable (findRemovable_run incoming whitelisted)"

text \<open>
  The specification's reading of "some whitelist item matches this record"; a nil record
  cannot be passed to \<open>Matches\<close> and is matched by nothing.
\<close>

definition matched :: "'c Item list \<Rightarrow> 'c option \<Rightarrow> bool" where
  "matched whitelisted inc =
     (case inc of None \<Rightarrow> False | Some c \<Rightarrow> list_ex (\<lambda>wh. wh c) whitelisted)"

section \<open>The port picker of the confirmation server\<close>

text \<open>
  \<open>rand.Intn(n)\<close> panics when \<open>n <= 0\<close> and otherwise returns a number of the half-open
  interval \<open>[0, n)\<close>. The generator's state is the parameter \<open>draw\<close>: every value of the
  interval is the result for some draw. A panic is the value \<open>None\<close>.
\<close>

definition Intn :: "int \<Rightarrow> int \<Rightarrow> int option" where
  "Intn draw n = (if n \<le> 0 then None else Some (draw mod n))"

text \<open>
  \<^verbatim>\<open>lowerBound := 1024
  n := rand.Intn(2<<15 - lowerBound)
  return n + lowerBound\<close>
  In Go the shift binds tighter than the subtraction. All values stay far below the range
  of \<open>int\<close>, so unbounded integers model them exactly.
\<close>

definition getPort :: "int \<Rightarrow> int option" where
  "getPort draw =
     (let lowerBound = 1024 in
      case Intn draw (push_bit 15 2 - lowerBound) of
        None \<Rightarrow> None
      | Some n \<Rightarrow> Some (n + lowerBound))"

section \<open>Strings (Go package strings)\<close>

text \<open>
  Go strings are byte sequences, as \<open>string\<close> is here. \<open>strings.HasPrefix(s, prefix)\<close> is
  \<^verbatim>\<open>len(s) >= len(prefix) && s[0:len(prefix)] == prefix\<close>.
\<close>

definition HasPrefix :: "string \<Rightarrow> string \<Rightarrow> bool" where
  "HasPrefix s pre = (length pre \<le> length s \<and> take (length pre) s = pre)"

text \<open>\<open>strings.Contains(s, substr)\<close>: \<open>substr\<close> occurs at some position of \<open>s\<close>.\<close>

fun Contains :: "string \<Rightarrow> string \<Rightarrow> bool" where
  "Contains [] substr = (substr = [])"
| "Contains (c # s) substr = (HasPrefix (c # s) substr \<or> Contains s substr)"

text \<open>\<open>strings.ToLower\<close> on ASCII: the letters \<open>A\<close> to \<open>Z\<close> (65 to 90) move up by 32.\<close>

definition toLower :: "char \<Rightarrow> char" where
  "toLower c =
     (let n = (of_char c :: nat) in if 65 \<le> n \<and> n \<le> 90 then char_of (n + 32) else c)"

definition ToLower :: "string \<Rightarrow> string" where
  "ToLower s = map toLower s"

text \<open>\<open>strings.TrimSpace\<close> on ASCII white space: tab, line feed, vertical tab, form feed,
  carriage return and space.\<close>

definition isSpace :: "char \<Rightarrow> bool" where
  "isSpace c = ((of_char c :: nat) \<in> {9, 10, 11, 12, 13, 32})"

definition TrimSpace :: "string \<Rightarrow> string" where
  "TrimSpace s = rev (dropWhile isSpace (rev (dropWhile isSpace s)))"

section \<open>Certificates and whitelist items\<close>

text \<open>
  Modelled from the spec: the certificate record; the type \<open>x509.Certificate\<close> and the
  fingerprint helper are not among the source files. The specification's
  CertificateRecord carries the hex fingerprint (lower case, no separators) and the issuer
  common name, the two fields the matchers read.
\<close>

record Certificate =
  Fingerprint :: string
  IssuerCommonName :: string

text \<open>The certificate of the test data (testdata/example.crt, as the test and the
  specification describe it) and a second one that shares no field with it.\<close>

definition starfield :: Certificate where
  "starfield =
     \<lparr>Fingerprint = ''96940d991419151450d1e75f66218f6f2594e1df4af31a5ad673c9a8746817ce'',
      IssuerCommonName = ''Starfield Secure Certification Authority''\<rparr>"

definition other_ca :: Certificate where
  "other_ca =
     \<lparr>Fingerprint = ''00c0ffee'', IssuerCommonName = ''Example Root CA''\<rparr>"

text \<open>
  Modelled from the spec: the two item variants, whose declarations and \<open>Matches\<close> methods
  are not among the source files; only their test (certs/whitelist\_test.go) and the
  constructor call in \<open>loadFromFile\<close> are. The names are those of the test.
\<close>

datatype WhitelistItem =
  HexSignatureWhitelistItem (Signature: string)
| IssuersCommonNameWhitelistItem (Name: string)

text \<open>
  Modelled from the spec: \<open>Matches\<close> of both variants. A fingerprint item matches when the
  candidate's fingerprint, lower-cased, starts with the signature, compared without regard
  to case; an issuer item matches when the issuer common name contains the name, case
  kept. The empty signature and the empty name match nothing.
\<close>

fun Matches :: "WhitelistItem \<Rightarrow> Certificate Item" where
  "Matches (HexSignatureWhitelistItem sig) c =
     (sig \<noteq> [] \<and> HasPrefix (ToLower (Fingerprint c)) (ToLower sig))"
| "Matches (IssuersCommonNameWhitelistItem name) c =
     (name \<noteq> [] \<and> Contains (IssuerCommonName c) name)"

text \<open>
  Modelled from the spec: the type \<open>fingerprint\<close> that \<open>loadFromFile\<close> builds from each
  hex signature is the fingerprint variant.
\<close>

definition fingerprint :: "string \<Rightarrow> WhitelistItem" where
  "fingerprint s = HexSignatureWhitelistItem s"

section \<open>Errors\<close>

text \<open>
  A Go \<open>error\<close> is a value; \<open>nil\<close> is \<open>None\<close>. \<open>fmt.Errorf\<close> builds an error from its
  message; the operating system's failures are path errors and link errors carrying an
  error number; \<open>json.Unmarshal\<close> fails with a syntax or type error.
\<close>

datatype errno = ENOENT | ENOTDIR | EEXIST | EISDIR | EACCES | EINVAL | ELOOP | ENOSPC | EIO

datatype error =
  Errorf string
| PathError string string errno
| LinkError string string string errno
| UnmarshalError string

text \<open>\<open>os.IsNotExist\<close>: the error reports that a file or directory does not exist.\<close>

fun IsNotExist :: "error \<Rightarrow> bool" where
  "IsNotExist (PathError opn p e) = (e = ENOENT)"
| "IsNotExist (LinkError opn old new e) = (e = ENOENT)"
| "IsNotExist (Errorf m) = False"
| "IsNotExist (UnmarshalError m) = False"

section \<open>The Windows trust store\<close>

text \<open>
  The machine a store method runs on: the certificates of the live trust store and the
  backup record on disk, if any. \<open>windowsStore\<close> is the empty struct; its methods are
  \<^verbatim>\<open>func (s windowsStore) Backup() error { return nil }
  func (s windowsStore) Remove(wh whitelist.Whitelist) error { return nil }
  func (s windowsStore) Restore() error { return nil }\<close>
\<close>

record machine =
  live :: "Certificate list"
  backup :: "Certificate list option"

definition windowsStore_Backup :: "machine \<Rightarrow> error option \<times> machine" where
  "windowsStore_Backup m = (None, m)"

definition windowsStore_Remove :: "Certificate Item list \<Rightarrow> machine \<Rightarrow> error option \<times> machine" where
  "windowsStore_Remove wh m = (None, m)"

definition windowsStore_Restore :: "machine \<Rightarrow> error option \<times> machine" where
  "windowsStore_Restore m = (None, m)"

text \<open>A session is the sequence of store methods one invocation of the tool calls.\<close>

datatype command = Backup | Remove "Certificate Item list" | Restore

fun perform :: "command \<Rightarrow> machine \<Rightarrow> error option \<times> machine" where
  "perform Backup m = windowsStore_Backup m"
| "perform (Remove wh) m = windowsStore_Remove wh m"
| "perform Restore m = windowsStore_Restore m"

fun session :: "command list \<Rightarrow> machine \<Rightarrow> error option list \<times> machine" where
  "session [] m = ([], m)"
| "session (c # cs) m =
     (case perform c m of (r, m') \<Rightarrow>
        (case session cs m' of (rs, m'') \<Rightarrow> (r # rs, m'')))"

section \<open>Paths (Go package path/filepath, Unix separator)\<close>

fun splitSlash :: "string \<Rightarrow> string list" where
  "splitSlash [] = [[]]"
| "splitSlash (c # s) =
     (if c = CHR ''/'' then [] # splitSlash s
      else (case splitSlash s of
              [] \<Rightarrow> [[c]]
            | e # es \<Rightarrow> (c # e) # es))"

fun joinSlash :: "string list \<Rightarrow> string" where
  "joinSlash [] = []"
| "joinSlash [e] = e"
| "joinSlash (e # es) = e @ ''/'' @ joinSlash es"

text \<open>
  The rules of \<open>filepath.Clean\<close>: empty elements and \<open>.\<close> are dropped; an inner \<open>..\<close>
  removes the element before it; a \<open>..\<close> at the start of a rooted path is dropped and at
  the start of a relative path it is kept. \<open>out\<close> holds the elements kept so far, last
  first.
\<close>

fun clean_elems :: "bool \<Rightarrow> string list \<Rightarrow> string list \<Rightarrow> string list" where
  "clean_elems rooted out [] = rev out"
| "clean_elems rooted out (e # es) =
     (if e = [] \<or> e = ''.'' then clean_elems rooted out es
      else if e = ''..'' then
        (case out of
           [] \<Rightarrow> if rooted then clean_elems rooted [] es
                 else clean_elems rooted [''..''] es
         | p # ps \<Rightarrow> if p = ''..'' then clean_elems rooted (''..'' # out) es
                     else clean_elems rooted ps es)
      else clean_elems rooted (e # out) es)"

definition Clean :: "string \<Rightarrow> string" where
  "Clean p =
     (let rooted = HasPrefix p ''/'';
          body = joinSlash (clean_elems rooted [] (splitSlash p))
      in if rooted then ''/'' @ body
         else if body = [] then ''.''
         else body)"

text \<open>\<open>filepath.Join\<close> of two elements: empty elements are ignored and the result is
  cleaned; two empty elements give the empty string.\<close>

definition Join :: "string \<Rightarrow> string \<Rightarrow> string" where
  "Join a b =
     (if a = [] \<and> b = [] then []
      else if a = [] then Clean b
      else if b = [] then Clean a
      else Clean (a @ ''/'' @ b))"

section \<open>The operating system as the code sees it\<close>

text \<open>
  \<open>os.FileMode\<close> is a 32-bit word: the permission bits are the low nine, \<open>os.ModeDir\<close> is
  bit 31 and \<open>os.ModeSymlink\<close> is bit 27.
\<close>

type_synonym FileMode = "32 word"

definition ModeDir :: FileMode where
  "ModeDir = push_bit 31 1"

definition ModeSymlink :: FileMode where
  "ModeSymlink = push_bit 27 1"

record FileInfo =
  FileInfo_Name :: string
  FileInfo_Mode :: FileMode

definition IsDir :: "FileInfo \<Rightarrow> bool" where
  "IsDir fi = (FileInfo_Mode fi AND ModeDir \<noteq> 0)"

text \<open>The JSON structure of a whitelist file, in struct form.\<close>

record jsonSignatures =
  Hex :: "string list"

record jsonWhitelist =
  Signatures :: jsonSignatures

text \<open>
  The library calls of the code, over a state \<open>'w\<close> of the machine. A call that reads
  returns an error or a value; a call that writes returns an error or nil, and the new
  state. An open file is named by its path. The code is verified for every behaviour of
  these calls.
\<close>

record 'w env =
  filepath_Abs :: "string \<Rightarrow> 'w \<Rightarrow> error + string"
  os_Stat :: "string \<Rightarrow> 'w \<Rightarrow> error + FileInfo"
  ioutil_ReadFile :: "string \<Rightarrow> 'w \<Rightarrow> error + string"
  json_Unmarshal :: "string \<Rightarrow> error + jsonWhitelist"
  os_MkdirAll :: "string \<Rightarrow> FileMode \<Rightarrow> 'w \<Rightarrow> error option \<times> 'w"
  ioutil_ReadDir :: "string \<Rightarrow> 'w \<Rightarrow> error + FileInfo list"
  os_Readlink :: "string \<Rightarrow> 'w \<Rightarrow> error + string"
  os_Symlink :: "string \<Rightarrow> string \<Rightarrow> 'w \<Rightarrow> error option \<times> 'w"
  os_Open :: "string \<Rightarrow> 'w \<Rightarrow> error option \<times> 'w"
  os_Create :: "string \<Rightarrow> 'w \<Rightarrow> error option \<times> 'w"
  io_Copy :: "string \<Rightarrow> string \<Rightarrow> 'w \<Rightarrow> error option \<times> 'w"
  file_Sync :: "string \<Rightarrow> 'w \<Rightarrow> error option \<times> 'w"
  os_Chmod :: "string \<Rightarrow> FileMode \<Rightarrow> 'w \<Rightarrow> error option \<times> 'w"
  file_Close :: "string \<Rightarrow> 'w \<Rightarrow> error option \<times> 'w"

section \<open>The whitelist loader (whitelist/whitelist.go, tools/file/file.go)\<close>

text \<open>
  \<^verbatim>\<open>path, err := filepath.Abs(strings.TrimSpace(path))
  if err != nil { return false }
  _, err = os.Stat(path)
  return err == nil\<close>
\<close>

definition Exists :: "'w env \<Rightarrow> string \<Rightarrow> 'w \<Rightarrow> bool" where
  "Exists E path w =
     (case filepath_Abs E (TrimSpace path) w of
        Inl err \<Rightarrow> False
      | Inr path \<Rightarrow>
          (case os_Stat E path w of
             Inl err \<Rightarrow> False
           | Inr fi \<Rightarrow> True))"

definition apostrophe :: string where
  "apostrophe = [CHR 0x27]"

text \<open>
  \<open>validWhitelistPath\<close> returns its verdict and the lines it prints. A path that does not
  exist is reported on standard output only: the function goes on.
\<close>

definition validWhitelistPath :: "'w env \<Rightarrow> string \<Rightarrow> 'w \<Rightarrow> bool \<times> string list" where
  "validWhitelistPath E path w =
     (let out = (if \<not> Exists E path w
                 then [''The path '' @ path @ '' doesn'' @ apostrophe @ ''t seem to exist.'']
                 else []);
          isFlag = HasPrefix path ''-''
      in if length path = 0 \<or> isFlag then
           (False,
            out @ [''The given whitelist file path '' @ apostrophe @ path @ apostrophe
                     @ '' doesn'' @ apostrophe @ ''t look correct.'']
                @ (if isFlag
                   then [''The path looks like a cli flag, -whitelist requires a path to the whitelist file.'']
                   else [''The given whitelist file path is empty.'']))
         else (True, out))"

text \<open>\<open>loadFromFile\<close> returns the items or the error, and the lines printed.\<close>

definition loadFromFile :: "'w env \<Rightarrow> string \<Rightarrow> 'w \<Rightarrow> (error + WhitelistItem list) \<times> string list" where
  "loadFromFile E path w =
     (case validWhitelistPath E path w of (valid, out) \<Rightarrow>
        if \<not> valid then
          (Inl (Errorf (''The path '' @ apostrophe @ path @ apostrophe
                          @ '' doesn'' @ apostrophe @ ''t seem to contain a whitelist.'')), out)
        else
          (case ioutil_ReadFile E path w of
             Inl err \<Rightarrow> (Inl err, out)
           | Inr b \<Rightarrow>
               (case json_Unmarshal E b of
                  Inl err \<Rightarrow> (Inl err, out)
                | Inr parsed \<Rightarrow>
                    (Inr (fold (\<lambda>s items. items @ [fingerprint s]) (Hex (Signatures parsed)) []),
                     out))))"

section \<open>Mirroring a directory (tools/file/file.go)\<close>

text \<open>
  Every library call of a run is recorded with its place in the code, its path and its
  outcome, in the order of the calls.
\<close>

datatype call =
  StatSrc | StatDst | MkdirAllDst | ReadDirSrc | ReadlinkItem | SymlinkItem
| OpenSrc | CreateDst | CopyData | SyncDst | StatCopied | ChmodDst | CloseSrc | CloseDst

type_synonym event = "call \<times> string \<times> error option"

text \<open>
  \<^verbatim>\<open>err = f(...); if err != nil { return err }\<close> for a call that writes: \<open>r\<close> is the
  outcome of the call and \<open>k\<close> the rest of the function.
\<close>

definition attempt ::
  "call \<Rightarrow> string \<Rightarrow> error option \<times> 'w \<Rightarrow> ('w \<Rightarrow> error option \<times> 'w \<times> event list)
     \<Rightarrow> error option \<times> 'w \<times> event list" where
  "attempt c p r k =
     (case r of
        (Some err, w') \<Rightarrow> (Some err, w', [(c, p, Some err)])
      | (None, w') \<Rightarrow> (case k w' of (res, w'', evs) \<Rightarrow> (res, w'', (c, p, None) # evs)))"

text \<open>The same for a call that reads: \<open>v, err := f(...); if err != nil { return err }\<close>.\<close>

definition inspect ::
  "call \<Rightarrow> string \<Rightarrow> error + 'a \<Rightarrow> 'w \<Rightarrow> ('a \<Rightarrow> error option \<times> 'w \<times> event list)
     \<Rightarrow> error option \<times> 'w \<times> event list" where
  "inspect c p r w k =
     (case r of
        Inl err \<Rightarrow> (Some err, w, [(c, p, Some err)])
      | Inr v \<Rightarrow> (case k v of (res, w', evs) \<Rightarrow> (res, w', (c, p, None) # evs)))"

text \<open>\<open>defer f.Close()\<close>: the file is closed when the function returns, on every path,
  and the outcome of the close is dropped.\<close>

definition closing ::
  "'w env \<Rightarrow> call \<Rightarrow> string \<Rightarrow> error option \<times> 'w \<times> event list
     \<Rightarrow> error option \<times> 'w \<times> event list" where
  "closing E c p body =
     (case body of (res, w, evs) \<Rightarrow>
        (case file_Close E p w of (cerr, w') \<Rightarrow> (res, w', evs @ [(c, p, cerr)])))"

text \<open>
  \<open>CopyFile\<close>: open \<open>src\<close>, create \<open>dst\<close>, copy the contents, sync, then give \<open>dst\<close> the
  mode of \<open>src\<close>.
\<close>

definition CopyFile :: "'w env \<Rightarrow> string \<Rightarrow> string \<Rightarrow> 'w \<Rightarrow> error option \<times> 'w \<times> event list" where
  "CopyFile E src dst w =
     attempt OpenSrc src (os_Open E src w) (\<lambda>w.
       closing E CloseSrc src
         (attempt CreateDst dst (os_Create E dst w) (\<lambda>w.
            closing E CloseDst dst
              (attempt CopyData dst (io_Copy E dst src w) (\<lambda>w.
               attempt SyncDst dst (file_Sync E dst w) (\<lambda>w.
               inspect StatCopied src (os_Stat E src w) w (\<lambda>s.
               attempt ChmodDst dst (os_Chmod E dst (FileInfo_Mode s) w) (\<lambda>w.
               (None, w, [])))))))))"

text \<open>The branch of \<open>MirrorDir\<close> for a symbolic link: read where it points, then create
  the same link at \<open>d\<close>.\<close>

definition copy_link :: "'w env \<Rightarrow> string \<Rightarrow> string \<Rightarrow> 'w \<Rightarrow> error option \<times> 'w \<times> event list" where
  "copy_link E s d w =
     inspect ReadlinkItem s (os_Readlink E s w) w (\<lambda>final.
     attempt SymlinkItem d (os_Symlink E final d w) (\<lambda>w.
     (None, w, [])))"

text \<open>
  The body of the loop of \<open>MirrorDir\<close> over the directory's items, for one item;
  \<open>recurse\<close> is the recursive call of \<open>MirrorDir\<close>. A run that does not return is \<open>None\<close>.
\<close>

definition mirror_item ::
  "(string \<Rightarrow> string \<Rightarrow> 'w \<Rightarrow> (error option \<times> 'w \<times> event list) option) \<Rightarrow> 'w env
     \<Rightarrow> string \<Rightarrow> string \<Rightarrow> FileInfo \<Rightarrow> 'w \<Rightarrow> (error option \<times> 'w \<times> event list) option" where
  "mirror_item recurse E src dst item w =
     (let s = Join src (FileInfo_Name item);
          d = Join dst (FileInfo_Name item)
      in if IsDir item then recurse s d w
         else if FileInfo_Mode item AND ModeSymlink \<noteq> 0 then Some (copy_link E s d w)
         else Some (CopyFile E s d w))"

text \<open>The loop: it returns at the first item that gives an error.\<close>

fun mirror_items ::
  "(string \<Rightarrow> string \<Rightarrow> 'w \<Rightarrow> (error option \<times> 'w \<times> event list) option) \<Rightarrow> 'w env
     \<Rightarrow> string \<Rightarrow> string \<Rightarrow> FileInfo list \<Rightarrow> 'w \<Rightarrow> (error option \<times> 'w \<times> event list) option" where
  "mirror_items recurse E src dst [] w = Some (None, w, [])"
| "mirror_items recurse E src dst (item # items) w =
     (case mirror_item recurse E src dst item w of
        None \<Rightarrow> None
      | Some (Some err, w', evs) \<Rightarrow> Some (Some err, w', evs)
      | Some (None, w', evs) \<Rightarrow>
          (case mirror_items recurse E src dst items w' of
             None \<Rightarrow> None
           | Some (res, w'', evs') \<Rightarrow> Some (res, w'', evs @ evs')))"

text \<open>
  The body of \<open>MirrorDir\<close>, with its recursive call as the parameter \<open>recurse\<close>. The
  outcome of \<open>os.MkdirAll\<close> is assigned to \<open>err\<close> and overwritten by the next statement
  unread.
\<close>

definition mirror_dir ::
  "(string \<Rightarrow> string \<Rightarrow> 'w \<Rightarrow> (error option \<times> 'w \<times> event list) option) \<Rightarrow> 'w env
     \<Rightarrow> string \<Rightarrow> string \<Rightarrow> 'w \<Rightarrow> (error option \<times> 'w \<times> event list) option" where
  "mirror_dir recurse E src dst w =
     (let src = Clean src;
          dst = Clean dst
      in case os_Stat E src w of
           Inl err \<Rightarrow> Some (Some err, w, [(StatSrc, src, Some err)])
         | Inr s \<Rightarrow>
             if \<not> IsDir s then
               Some (Some (Errorf (src @ '' is not a directory'')), w, [(StatSrc, src, None)])
             else
               (let err = (case os_Stat E dst w of Inl err \<Rightarrow> Some err | Inr t \<Rightarrow> None)
                in if (case err of None \<Rightarrow> False | Some e \<Rightarrow> \<not> IsNotExist e) then
                     Some (err, w, [(StatSrc, src, None), (StatDst, dst, err)])
                   else
                     (case os_MkdirAll E dst (FileInfo_Mode s) w of (merr, w1) \<Rightarrow>
                        (case ioutil_ReadDir E src w1 of
                           Inl err' \<Rightarrow>
                             Some (Some err', w1,
                                   [(StatSrc, src, None), (StatDst, dst, err),
                                    (MkdirAllDst, dst, merr), (ReadDirSrc, src, Some err')])
                         | Inr items \<Rightarrow>
                             (case mirror_items recurse E src dst items w1 of
                                None \<Rightarrow> None
                              | Some (res, w2, evs) \<Rightarrow>
                                  Some (res, w2,
                                        [(StatSrc, src, None), (StatDst, dst, err),
                                         (MkdirAllDst, dst, merr), (ReadDirSrc, src, None)]
                                        @ evs))))))"

text \<open>
  \<open>MirrorDir\<close>. The recursion follows the directories found on disk, which the run itself
  changes, so it is bounded by a depth \<open>n\<close>: \<open>None\<close> says that the depth did not suffice.
\<close>

primrec MirrorDir ::
  "nat \<Rightarrow> 'w env \<Rightarrow> string \<Rightarrow> string \<Rightarrow> 'w \<Rightarrow> (error option \<times> 'w \<times> event list) option" where
  "MirrorDir 0 E src dst w = None"
| "MirrorDir (Suc n) E src dst w = mirror_dir (MirrorDir n E) E src dst w"



section \<open>A Unix file system for the library calls\<close>

text \<open>
  One behaviour of the library calls, on which runs of the code are evaluated: a disk is a
  table from cleaned absolute paths to nodes, the root is always a directory, the working
  directory is the root and the process is the owner of every node without being the
  superuser, so the owner's permission bits decide (read 0400 is 256, write 0200 is 128;
  0755 is 493, 0644 is 420, 0666 is 438, 0777 is 511). A symbolic link at the end of a
  path is followed, at most 40 times.
\<close>

datatype node = Directory FileMode | Regular FileMode string | Link string

type_synonym disk = "(string \<times> node) list"

definition resolve :: "string \<Rightarrow> string" where
  "resolve p = (if HasPrefix p ''/'' then Clean p else Clean (''/'' @ p))"

definition parent :: "string \<Rightarrow> string" where
  "parent q = Clean (q @ ''/..'')"

definition base :: "string \<Rightarrow> string" where
  "base q = last (splitSlash q)"

definition lookup :: "disk \<Rightarrow> string \<Rightarrow> node option" where
  "lookup d q = (if q = ''/'' then Some (Directory 493) else map_of d q)"

definition store :: "string \<Rightarrow> node \<Rightarrow> disk \<Rightarrow> disk" where
  "store q n d = filter (\<lambda>(k, v). k \<noteq> q) d @ [(q, n)]"

fun follow :: "nat \<Rightarrow> disk \<Rightarrow> string \<Rightarrow> string option" where
  "follow 0 d q = None"
| "follow (Suc k) d q =
     (case lookup d q of
        Some (Link t) \<Rightarrow>
          follow k d (if HasPrefix t ''/'' then Clean t else Clean (parent q @ ''/'' @ t))
      | _ \<Rightarrow> Some q)"

definition info :: "string \<Rightarrow> node \<Rightarrow> FileInfo" where
  "info q n =
     \<lparr>FileInfo_Name = base q,
      FileInfo_Mode = (case n of
                         Directory m \<Rightarrow> m OR ModeDir
                       | Regular m c \<Rightarrow> m
                       | Link t \<Rightarrow> 511 OR ModeSymlink)\<rparr>"

definition missing :: "disk \<Rightarrow> string \<Rightarrow> errno" where
  "missing d q =
     (case lookup d (parent q) of
        None \<Rightarrow> ENOENT
      | Some (Directory m) \<Rightarrow> ENOENT
      | Some n \<Rightarrow> ENOTDIR)"

definition addable :: "disk \<Rightarrow> string \<Rightarrow> errno option" where
  "addable d q =
     (case lookup d (parent q) of
        None \<Rightarrow> Some ENOENT
      | Some (Directory m) \<Rightarrow> if m AND 128 = 0 then Some EACCES else None
      | Some n \<Rightarrow> Some ENOTDIR)"

definition unix_Stat :: "string \<Rightarrow> disk \<Rightarrow> error + FileInfo" where
  "unix_Stat p d =
     (case follow 40 d (resolve p) of
        None \<Rightarrow> Inl (PathError ''stat'' p ELOOP)
      | Some q \<Rightarrow>
          (case lookup d q of
             None \<Rightarrow> Inl (PathError ''stat'' p (missing d q))
           | Some n \<Rightarrow> Inr (info (resolve p) n)))"

text \<open>\<open>ioutil.ReadDir\<close> returns the entries of a directory sorted by file name, each
  described without following links.\<close>

fun str_less :: "string \<Rightarrow> string \<Rightarrow> bool" where
  "str_less [] [] = False"
| "str_less [] (b # bs) = True"
| "str_less (a # as) [] = False"
| "str_less (a # as) (b # bs) =
     ((of_char a :: nat) < of_char b \<or> (a = b \<and> str_less as bs))"

fun insert_by_name :: "FileInfo \<Rightarrow> FileInfo list \<Rightarrow> FileInfo list" where
  "insert_by_name x [] = [x]"
| "insert_by_name x (y # ys) =
     (if str_less (FileInfo_Name y) (FileInfo_Name x) then y # insert_by_name x ys
      else x # y # ys)"

definition unix_ReadDir :: "string \<Rightarrow> disk \<Rightarrow> error + FileInfo list" where
  "unix_ReadDir p d =
     (case follow 40 d (resolve p) of
        None \<Rightarrow> Inl (PathError ''open'' p ELOOP)
      | Some q \<Rightarrow>
          (case lookup d q of
             None \<Rightarrow> Inl (PathError ''open'' p (missing d q))
           | Some (Directory m) \<Rightarrow>
               if m AND 256 = 0 then Inl (PathError ''open'' p EACCES)
               else Inr (foldr insert_by_name
                           (map (\<lambda>(k, n). info k n)
                              (filter (\<lambda>(k, n). k \<noteq> ''/'' \<and> parent k = q) d)) [])
           | Some n \<Rightarrow> Inl (PathError ''readdirent'' p ENOTDIR)))"

text \<open>\<open>os.MkdirAll\<close> walks down from the root and creates every directory that is
  missing; a path element that exists and is no directory is an error.\<close>

fun mkdirs :: "string \<Rightarrow> FileMode \<Rightarrow> string list \<Rightarrow> disk \<Rightarrow> error option \<times> disk" where
  "mkdirs at perm [] d = (None, d)"
| "mkdirs at perm (e # es) d =
     (let q = (if at = ''/'' then ''/'' @ e else at @ ''/'' @ e) in
      case lookup d q of
        Some (Directory m) \<Rightarrow> mkdirs q perm es d
      | Some n \<Rightarrow> (Some (PathError ''mkdir'' q ENOTDIR), d)
      | None \<Rightarrow>
          (case addable d q of
             Some e \<Rightarrow> (Some (PathError ''mkdir'' q e), d)
           | None \<Rightarrow> mkdirs q perm es (store q (Directory (perm AND 511)) d)))"

definition unix_MkdirAll :: "string \<Rightarrow> FileMode \<Rightarrow> disk \<Rightarrow> error option \<times> disk" where
  "unix_MkdirAll p perm d =
     mkdirs ''/'' perm (clean_elems True [] (splitSlash (resolve p))) d"

definition unix_Readlink :: "string \<Rightarrow> disk \<Rightarrow> error + string" where
  "unix_Readlink p d =
     (case lookup d (resolve p) of
        None \<Rightarrow> Inl (PathError ''readlink'' p (missing d (resolve p)))
      | Some (Link t) \<Rightarrow> Inr t
      | Some n \<Rightarrow> Inl (PathError ''readlink'' p EINVAL))"

definition unix_Symlink :: "string \<Rightarrow> string \<Rightarrow> disk \<Rightarrow> error option \<times> disk" where
  "unix_Symlink old new d =
     (let q = resolve new in
      case lookup d q of
        Some n \<Rightarrow> (Some (LinkError ''symlink'' old new EEXIST), d)
      | None \<Rightarrow>
          (case addable d q of
             Some e \<Rightarrow> (Some (LinkError ''symlink'' old new e), d)
           | None \<Rightarrow> (None, store q (Link old) d)))"

definition unix_Open :: "string \<Rightarrow> disk \<Rightarrow> error option \<times> disk" where
  "unix_Open p d =
     (case follow 40 d (resolve p) of
        None \<Rightarrow> (Some (PathError ''open'' p ELOOP), d)
      | Some q \<Rightarrow>
          (case lookup d q of
             None \<Rightarrow> (Some (PathError ''open'' p (missing d q)), d)
           | Some (Regular m c) \<Rightarrow>
               if m AND 256 = 0 then (Some (PathError ''open'' p EACCES), d) else (None, d)
           | Some n \<Rightarrow> (None, d)))"

text \<open>\<open>os.Create\<close> truncates an existing file and creates a missing one with mode 0666.\<close>

definition unix_Create :: "string \<Rightarrow> disk \<Rightarrow> error option \<times> disk" where
  "unix_Create p d =
     (case follow 40 d (resolve p) of
        None \<Rightarrow> (Some (PathError ''open'' p ELOOP), d)
      | Some q \<Rightarrow>
          (case lookup d q of
             None \<Rightarrow>
               (case addable d q of
                  Some e \<Rightarrow> (Some (PathError ''open'' p e), d)
                | None \<Rightarrow> (None, store q (Regular 438 []) d))
           | Some (Regular m c) \<Rightarrow>
               if m AND 128 = 0 then (Some (PathError ''open'' p EACCES), d)
               else (None, store q (Regular m []) d)
           | Some n \<Rightarrow> (Some (PathError ''open'' p EISDIR), d)))"

text \<open>\<open>io.Copy(out, in)\<close> writes the contents of the open file \<open>in\<close> to the open file
  \<open>out\<close>.\<close>

definition unix_Copy :: "string \<Rightarrow> string \<Rightarrow> disk \<Rightarrow> error option \<times> disk" where
  "unix_Copy out inp d =
     (case (case follow 40 d (resolve inp) of None \<Rightarrow> None | Some q \<Rightarrow> lookup d q) of
        Some (Regular m c) \<Rightarrow>
          (case follow 40 d (resolve out) of
             None \<Rightarrow> (Some (PathError ''write'' out EIO), d)
           | Some q \<Rightarrow>
               (case lookup d q of
                  Some (Regular m' c') \<Rightarrow> (None, store q (Regular m' c) d)
                | _ \<Rightarrow> (Some (PathError ''write'' out EIO), d)))
      | Some (Directory m) \<Rightarrow> (Some (PathError ''read'' inp EISDIR), d)
      | _ \<Rightarrow> (Some (PathError ''read'' inp EIO), d))"

text \<open>\<open>os.Chmod\<close> sets the permission bits and leaves the kind of the node alone.\<close>

definition unix_Chmod :: "string \<Rightarrow> FileMode \<Rightarrow> disk \<Rightarrow> error option \<times> disk" where
  "unix_Chmod p mode d =
     (case follow 40 d (resolve p) of
        None \<Rightarrow> (Some (PathError ''chmod'' p ELOOP), d)
      | Some q \<Rightarrow>
          (case lookup d q of
             None \<Rightarrow> (Some (PathError ''chmod'' p (missing d q)), d)
           | Some (Regular m c) \<Rightarrow> (None, store q (Regular (mode AND 511) c) d)
           | Some (Directory m) \<Rightarrow>
               if q = ''/'' then (None, d) else (None, store q (Directory (mode AND 511)) d)
           | Some n \<Rightarrow> (None, d)))"

definition unix_ReadFile :: "string \<Rightarrow> disk \<Rightarrow> error + string" where
  "unix_ReadFile p d =
     (case follow 40 d (resolve p) of
        None \<Rightarrow> Inl (PathError ''open'' p ELOOP)
      | Some q \<Rightarrow>
          (case lookup d q of
             None \<Rightarrow> Inl (PathError ''open'' p (missing d q))
           | Some (Regular m c) \<Rightarrow>
               if m AND 256 = 0 then Inl (PathError ''open'' p EACCES) else Inr c
           | Some n \<Rightarrow> Inl (PathError ''read'' p EISDIR)))"

text \<open>The file system as an environment; \<open>Sync\<close> and \<open>Close\<close> succeed and change
  nothing. The JSON decoder is a parameter.\<close>

definition unix :: "(string \<Rightarrow> error + jsonWhitelist) \<Rightarrow> disk env" where
  "unix decode =
     \<lparr>filepath_Abs = (\<lambda>p d. Inr (resolve p)),
      os_Stat = unix_Stat,
      ioutil_ReadFile = unix_ReadFile,
      json_Unmarshal = decode,
      os_MkdirAll = unix_MkdirAll,
      ioutil_ReadDir = unix_ReadDir,
      os_Readlink = unix_Readlink,
      os_Symlink = unix_Symlink,
      os_Open = unix_Open,
      os_Create = unix_Create,
      io_Copy = unix_Copy,
      file_Sync = (\<lambda>p d. (None, d)),
      os_Chmod = unix_Chmod,
      file_Close = (\<lambda>p d. (None, d))\<rparr>"

text \<open>A decoder that rejects every input, for runs that never reach it.\<close>

definition no_json :: "string \<Rightarrow> error + jsonWhitelist" where
  "no_json b = Inl (UnmarshalError ''unexpected end of JSON input'')"

text \<open>A source directory with a readable certificate and one that its owner may not
  read, and no destination.\<close>

definition disk0 :: disk where
  "disk0 =
     [(''/src'', Directory 493),
      (''/src/a.crt'', Regular 420 ''AAA''),
      (''/src/b.crt'', Regular 0 ''BBB'')]"


text \<open>The disk and the events that mirroring \<open>/src\<close> of \<open>disk1\<close> to \<open>/backup\<close> gives.\<close>

definition disk1_mirrored :: disk where
  "disk1_mirrored =
     [(''/src'', Directory 493), (''/src/a.crt'', Regular 420 ''AAA''),
      (''/src/mozilla'', Directory 448), (''/src/mozilla/c.crt'', Regular 384 ''CCC''),
      (''/src/z.pem'', Link ''a.crt''), (''/backup'', Directory 493),
      (''/backup/a.crt'', Regular 420 ''AAA''), (''/backup/mozilla'', Directory 448),
      (''/backup/mozilla/c.crt'', Regular 384 ''CCC''), (''/backup/z.pem'', Link ''a.crt'')]"





section \<open>Properties of the resolver\<close>

lemma scan_fold: "fold (scan_item inc) whitelisted b = (b \<and> \<not> matched whitelisted inc)"
  by (induction whitelisted arbitrary: b)
     (auto simp: scan_item_def matched_def split: option.splits)

lemma scan_whitelist_matched: "scan_whitelist inc whitelisted = (\<not> matched whitelisted inc)"
  by (simp add: scan_whitelist_def scan_fold)

lemma visit_fold:
  "fold (visit whitelisted) incoming fr =
     fr\<lparr>frame_removable :=
          frame_removable fr @ filter (\<lambda>inc. \<not> matched whitelisted inc) incoming\<rparr>"
  by (induction incoming arbitrary: fr) (simp_all add: visit_def scan_whitelist_matched)

lemma findRemovable_filter:
  "findRemovable incoming whitelisted = filter (\<lambda>inc. \<not> matched whitelisted inc) incoming"
  by (simp add: findRemovable_def findRemovable_run_def visit_fold)

lemma findRemovable_run_incoming:
  "frame_incoming (findRemovable_run incoming whitelisted) = incoming"
  by (simp add: findRemovable_run_def visit_fold)

lemma matched_Nil: "\<not> matched [] inc"
  by (simp add: matched_def split: option.splits)

lemma matched_None: "\<not> matched whitelisted None"
  by (simp add: matched_def)

text \<open>
  C2 (amended). For every snapshot and every whitelist, \<open>findRemovable\<close> returns exactly
  the entries of the snapshot, in order, that no whitelist item matches, where a nil entry
  is matched by no item and is therefore returned; with the empty whitelist the result is
  the whole snapshot, nil entries included; the empty snapshot gives the empty result.
\<close>

theorem findRemovable_exact:
  "findRemovable incoming whitelisted = filter (\<lambda>inc. \<not> matched whitelisted inc) incoming
   \<and> findRemovable incoming [] = incoming
   \<and> findRemovable [] whitelisted = []"
  by (simp add: findRemovable_filter matched_Nil)

theorem findRemovable_exact_witness:
  "findRemovable [Some starfield, None, Some other_ca]
     [Matches (HexSignatureWhitelistItem ''96940d99'')] = [None, Some other_ca]"
proof -
  have "filter (\<lambda>inc. \<not> matched [Matches (HexSignatureWhitelistItem ''96940d99'')] inc)
          [Some starfield, None, Some other_ca] = [None, Some other_ca]"
    by code_simp
  then show ?thesis
    by (simp only: conjunct1 [OF findRemovable_exact])
qed

text \<open>
  C2 as stated fails: with the empty whitelist a nil entry of the snapshot is returned, so
  the result is not the snapshot minus its nil entries.
\<close>

theorem findRemovable_empty_whitelist_keeps_nil:
  "findRemovable [None, Some starfield] [] \<noteq> [Some starfield]"
  by (simp add: findRemovable_filter matched_Nil)

text \<open>
  C3 (amended). A nil record of the snapshot is always part of the output of
  \<open>findRemovable\<close>, whatever the whitelist: the output has a nil entry exactly when the
  snapshot has one, and it has as many of them as the snapshot.
\<close>

theorem findRemovable_returns_nil:
  "(None \<in> set (findRemovable incoming whitelisted)) = (None \<in> set incoming)
   \<and> filter (\<lambda>inc. inc = None) (findRemovable incoming whitelisted)
       = filter (\<lambda>inc. inc = None) incoming"
proof -
  have "filter (\<lambda>inc. inc = None) (filter (\<lambda>inc. \<not> matched whitelisted inc) incoming)
          = filter (\<lambda>inc. inc = None) incoming"
    by (induction incoming) (auto simp: matched_None)
  moreover have "(None \<in> set (filter (\<lambda>inc. \<not> matched whitelisted inc) incoming))
          = (None \<in> set incoming)"
    by (auto simp: matched_None)
  ultimately show ?thesis
    by (simp add: findRemovable_filter)
qed

theorem findRemovable_returns_nil_witness:
  "None \<in> set (findRemovable [Some starfield, None]
     [Matches (IssuersCommonNameWhitelistItem ''Starfield'')])"
  by (simp only: conjunct1 [OF findRemovable_returns_nil]) simp

text \<open>
  C3 as stated fails: the nil record of a snapshot is in the output, here next to a
  certificate that the whitelist retains.
\<close>

theorem findRemovable_nil_in_output:
  "findRemovable [None, Some starfield]
     [Matches (IssuersCommonNameWhitelistItem ''Starfield'')] = [None]"
proof -
  have "filter (\<lambda>inc. \<not> matched [Matches (IssuersCommonNameWhitelistItem ''Starfield'')] inc)
          [None, Some starfield] = [None]"
    by code_simp
  then show ?thesis
    by (simp only: findRemovable_filter)
qed

text \<open>
  C9. The output of \<open>findRemovable\<close> is a subsequence of the snapshot: its elements are
  elements of the snapshot, in the same relative order; and the slice ranged over is the
  same after the loop as before.
\<close>

theorem findRemovable_subseq:
  "subseq (findRemovable incoming whitelisted) incoming
   \<and> set (findRemovable incoming whitelisted) \<subseteq> set incoming
   \<and> frame_incoming (findRemovable_run incoming whitelisted) = incoming"
  by (simp add: findRemovable_filter findRemovable_run_incoming)

section \<open>Properties of the port picker\<close>

text \<open>
  C10. For every draw of the generator \<open>getPort\<close> returns (it does not panic) a port \<open>n\<close>
  with \<open>1024 \<le> n \<le> 65535\<close>.
\<close>

theorem getPort_range:
  "\<exists>n. getPort draw = Some n \<and> 1024 \<le> n \<and> n \<le> 65535"
proof -
  have b: "push_bit 15 (2::int) - 1024 = 64512"
    by (simp add: push_bit_eq_mult)
  have "0 \<le> draw mod 64512" and "draw mod 64512 < 64512"
    by simp_all
  then show ?thesis
    by (simp add: getPort_def Intn_def b)
qed

section \<open>Properties of the matchers\<close>

lemma HasPrefix_prefix: "HasPrefix s pre = prefix pre s"
  by (auto simp: HasPrefix_def prefix_def min_def) (metis append_eq_conv_conj)

lemma Contains_sublist: "Contains s substr = sublist substr s"
  by (induction s) (auto simp: HasPrefix_prefix sublist_Cons_right)



text \<open>
  C5. An issuer-common-name item matches a certificate if and only if its name is a
  non-empty substring, case kept, of the certificate's issuer common name; the item with
  the empty name matches no certificate.
\<close>

theorem issuer_substring_matches:
  "Matches (IssuersCommonNameWhitelistItem name) c
     = (name \<noteq> [] \<and> (\<exists>before after. IssuerCommonName c = before @ name @ after))
   \<and> \<not> Matches (IssuersCommonNameWhitelistItem []) c"
  by (simp add: Contains_sublist sublist_def)

theorem issuer_substring_matches_witness:
  "Matches (IssuersCommonNameWhitelistItem ''Secure'') starfield
   \<and> \<not> Matches (IssuersCommonNameWhitelistItem ''secure'') starfield"
proof -
  have "IssuerCommonName starfield = ''Starfield '' @ ''Secure'' @ '' Certification Authority''"
    by (simp add: starfield_def)
  then have "Matches (IssuersCommonNameWhitelistItem ''Secure'') starfield"
    using conjunct1 [OF issuer_substring_matches, of "''Secure''" starfield] by blast
  moreover have "\<not> Matches (IssuersCommonNameWhitelistItem ''secure'') starfield"
    by code_simp
  ultimately show ?thesis
    by simp
qed

section \<open>Properties of the Windows trust store\<close>

lemma perform_unchanged: "perform c m = (None, m)"
  by (cases c)
     (simp_all add: windowsStore_Backup_def windowsStore_Remove_def windowsStore_Restore_def)

lemma session_unchanged: "snd (session cs m) = m"
proof (induction cs arbitrary: m)
  case Nil
  show ?case by simp
next
  case (Cons c cs)
  obtain rs m' where s: "session cs m = (rs, m')"
    by (cases "session cs m")
  with Cons.IH [of m] have "m' = m"
    by simp
  with s show ?case
    by (simp add: perform_unchanged)
qed

text \<open>
  C1 (amended). On the Windows store, \<open>Remove\<close> returns nil and leaves the machine as it
  was at the start of the session, whatever store methods ran before it in the session,
  a \<open>Backup\<close> among them or not.
\<close>

theorem windowsStore_Remove_returns_nil:
  "windowsStore_Remove wh (snd (session cs m)) = (None, m)"
  by (simp add: session_unchanged windowsStore_Remove_def)

text \<open>
  C1 as stated fails: in a session with no \<open>Backup\<close>, \<open>Remove\<close> on a store with no backup
  record returns nil, not an error.
\<close>

theorem windowsStore_Remove_without_backup:
  "fst (windowsStore_Remove [Matches (HexSignatureWhitelistItem ''96940d99'')]
          (snd (session [] \<lparr>live = [starfield, other_ca], backup = None\<rparr>))) = None"
  by (simp add: windowsStore_Remove_def)

text \<open>
  C6 (amended). On the Windows store, \<open>Restore\<close> returns nil and leaves the machine
  untouched, with a backup record or without one; and no store method of a session
  creates or changes the backup record.
\<close>

theorem windowsStore_Restore_returns_nil:
  "windowsStore_Restore m = (None, m)
   \<and> backup (snd (session cs m)) = backup m
   \<and> windowsStore_Restore (snd (session cs m)) = (None, m)"
  by (simp add: session_unchanged windowsStore_Restore_def)

text \<open>
  C6 as stated fails: \<open>Restore\<close> on a store with no backup record returns nil, not an
  error.
\<close>

theorem windowsStore_Restore_without_backup:
  "backup \<lparr>live = [other_ca], backup = None\<rparr> = None
   \<and> fst (windowsStore_Restore \<lparr>live = [other_ca], backup = None\<rparr>) = None"
  by (simp add: windowsStore_Restore_def)

section \<open>Properties of the whitelist loader\<close>

lemma unix_ReadFile_missing:
  "lookup d (resolve path) = None \<Longrightarrow> \<exists>err. unix_ReadFile path d = Inl err"
  by (simp add: unix_ReadFile_def eval_nat_numeral)

lemma validWhitelistPath_verdict:
  "fst (validWhitelistPath E path w) = (\<not> (path = [] \<or> HasPrefix path ''-''))"
  by (simp add: validWhitelistPath_def Let_def)

lemma loadFromFile_invalid:
  "path = [] \<or> HasPrefix path ''-'' \<Longrightarrow>
   fst (loadFromFile E path w)
     = Inl (Errorf (''The path '' @ apostrophe @ path @ apostrophe
                      @ '' doesn'' @ apostrophe @ ''t seem to contain a whitelist.''))"
  using validWhitelistPath_verdict [of E path w]
  by (auto simp: loadFromFile_def split: prod.splits)

lemma loadFromFile_unreadable:
  "path \<noteq> [] \<Longrightarrow> \<not> HasPrefix path ''-'' \<Longrightarrow> ioutil_ReadFile E path w = Inl err \<Longrightarrow>
   fst (loadFromFile E path w) = Inl err"
  using validWhitelistPath_verdict [of E path w]
  by (auto simp: loadFromFile_def split: prod.splits)

lemma loadFromFile_missing:
  assumes "lookup d (resolve path) = None"
  shows "\<exists>err. fst (loadFromFile (unix decode) path d) = Inl err"
proof (cases "path = [] \<or> HasPrefix path ''-''")
  case True
  then show ?thesis
    by (simp add: loadFromFile_invalid)
next
  case False
  from assms obtain err where "unix_ReadFile path d = Inl err"
    using unix_ReadFile_missing by blast
  then have "ioutil_ReadFile (unix decode) path d = Inl err"
    by (simp add: unix_def)
  with False have "fst (loadFromFile (unix decode) path d) = Inl err"
    by (simp add: loadFromFile_unreadable)
  then show ?thesis ..
qed

text \<open>
  C7. \<open>loadFromFile\<close> returns an error and no whitelist when the path is empty or starts
  with \<open>-\<close> (the error built by \<open>fmt.Errorf\<close>), and when the file cannot be read, which is
  the case of a file that does not exist (the error of \<open>ioutil.ReadFile\<close>); on the Unix
  file system a path with no node gives an error for every decoder.
\<close>

theorem loadFromFile_rejects:
  "(path = [] \<or> HasPrefix path ''-'' \<longrightarrow>
      fst (loadFromFile E path w)
        = Inl (Errorf (''The path '' @ apostrophe @ path @ apostrophe
                         @ '' doesn'' @ apostrophe @ ''t seem to contain a whitelist.'')))
   \<and> (path \<noteq> [] \<and> \<not> HasPrefix path ''-'' \<and> ioutil_ReadFile E path w = Inl err \<longrightarrow>
        fst (loadFromFile E path w) = Inl err)
   \<and> (lookup d (resolve path) = None \<longrightarrow>
        (\<exists>err'. fst (loadFromFile (unix decode) path d) = Inl err'))"
  using loadFromFile_invalid [of path E w] loadFromFile_unreadable [of path E w err]
    loadFromFile_missing [of d path decode]
  by blast

theorem loadFromFile_rejects_witness:
  "HasPrefix ''-whitelist'' ''-''
   \<and> fst (loadFromFile (unix no_json) ''-whitelist'' disk0)
       = Inl (Errorf (''The path '' @ apostrophe @ ''-whitelist'' @ apostrophe
                        @ '' doesn'' @ apostrophe @ ''t seem to contain a whitelist.''))
   \<and> ''/whitelist.json'' \<noteq> [] \<and> \<not> HasPrefix ''/whitelist.json'' ''-''
   \<and> ioutil_ReadFile (unix no_json) ''/whitelist.json'' disk0
       = Inl (PathError ''open'' ''/whitelist.json'' ENOENT)
   \<and> fst (loadFromFile (unix no_json) ''/whitelist.json'' disk0)
       = Inl (PathError ''open'' ''/whitelist.json'' ENOENT)
   \<and> IsNotExist (PathError ''open'' ''/whitelist.json'' ENOENT)
   \<and> lookup disk0 (resolve ''/whitelist.json'') = None"
proof -
  have flag: "HasPrefix ''-whitelist'' ''-''"
    by (simp add: HasPrefix_def)
  have path: "''/whitelist.json'' \<noteq> []" "\<not> HasPrefix ''/whitelist.json'' ''-''"
    by (simp_all add: HasPrefix_def)
  have missing: "lookup disk0 (resolve ''/whitelist.json'') = None"
    by code_simp
  have read: "ioutil_ReadFile (unix no_json) ''/whitelist.json'' disk0
                = Inl (PathError ''open'' ''/whitelist.json'' ENOENT)"
    by code_simp
  note inst = loadFromFile_rejects [of _ "unix no_json" disk0 _ disk0 no_json]
  from flag inst [of "''-whitelist''"]
  have "fst (loadFromFile (unix no_json) ''-whitelist'' disk0)
       = Inl (Errorf (''The path '' @ apostrophe @ ''-whitelist'' @ apostrophe
                        @ '' doesn'' @ apostrophe @ ''t seem to contain a whitelist.''))"
    by blast
  moreover from path read inst [of "''/whitelist.json''" "PathError ''open'' ''/whitelist.json'' ENOENT"]
  have "fst (loadFromFile (unix no_json) ''/whitelist.json'' disk0)
       = Inl (PathError ''open'' ''/whitelist.json'' ENOENT)"
    by blast
  ultimately show ?thesis
    using flag path missing read by simp
qed

section \<open>Properties of MirrorDir\<close>










































text \<open>
  The error of \<open>os.MkdirAll\<close> is dropped: the source directory is empty and the
  destination is a regular file, so no directory can be made, and \<open>MirrorDir\<close> returns
  nil.
\<close>

lemma MirrorDir_drops_MkdirAll_error:
  "MirrorDir 1 (unix no_json) ''/src/mozilla'' ''/src/a.crt''
     [(''/src'', Directory 493), (''/src/a.crt'', Regular 420 ''AAA''),
      (''/src/mozilla'', Directory 448)] =
   Some (None,
     [(''/src'', Directory 493), (''/src/a.crt'', Regular 420 ''AAA''),
      (''/src/mozilla'', Directory 448)],
     [(StatSrc, ''/src/mozilla'', None), (StatDst, ''/src/a.crt'', None),
      (MkdirAllDst, ''/src/a.crt'', Some (PathError ''mkdir'' ''/src/a.crt'' ENOTDIR)),
      (ReadDirSrc, ''/src/mozilla'', None)])"
  by code_simp

text \<open>
  A failure that does not depend on permissions: mirroring again into the mirror made
  before fails at the symbolic link, which exists already, after the files before it were
  written again.
\<close>

lemma MirrorDir_again_fails_at_link:
  "map_option fst (MirrorDir 2 (unix no_json) ''/src'' ''/backup'' disk1_mirrored)
     = Some (Some (LinkError ''symlink'' ''a.crt'' ''/backup/z.pem'' EEXIST))"
  by code_simp

end
